theory Spec2Isabelle
  imports Complex_Main "HOL-Library.Word"
begin

section \<open>The StudySphere client: frontend/src/App.js\<close>

text \<open>
  The file is a React application. Every component keeps its state in \<open>useState\<close>
  cells and changes it in event handlers; a handler may also emit an event on the
  socket. A component is modelled as a record of its state cells, a handler as a function
  from the state before to the state after together with the list of events it emits,
  in the order of emission.

  What belongs to the language, to the browser or to a library, and not to the file,
  is an argument of the function that uses it: \<open>String.prototype.toUpperCase\<close>, the
  subtraction of numbers, \<open>JSON.parse\<close>, \<open>Date.now\<close>, the decoder of tokens, the
  HTTP endpoints, the HTML that the notes editor makes of a value, and the colour parser
  of a canvas (a field of the canvas). \<open>String.prototype.trim\<close> is defined in full.
\<close>

subsection \<open>JavaScript strings\<close>

text \<open>
  Text that the file only stores and passes on (room ids, user names, notes, tokens) is
  kept as \<open>string\<close>. The two inputs whose characters the file looks at, the chat
  field (\<open>trim\<close>) and the join-code field (\<open>toUpperCase\<close>), are sequences of
  UTF-16 code units, as JavaScript strings are. \<open>utf16\<close> gives the code units of a
  literal of ASCII text.

  \<open>trim\<close> removes from both ends the code units that ECMAScript calls WhiteSpace
  (TAB, VT, FF, ZWNBSP and the space separators of Unicode) or LineTerminator (LF, CR,
  LS, PS). All of them are single code units, so trimming code units is trimming
  characters. A string is truthy when it is not empty.
\<close>

type_synonym code_unit = "16 word"

type_synonym js_string = "code_unit list"

definition utf16 :: "string \<Rightarrow> js_string" where
  "utf16 s = map of_char s"

definition white_space :: "code_unit list" where
  "white_space =
     [0x0009, 0x000B, 0x000C, 0xFEFF,
      0x0020, 0x00A0, 0x1680, 0x2000, 0x2001, 0x2002, 0x2003, 0x2004, 0x2005, 0x2006,
      0x2007, 0x2008, 0x2009, 0x200A, 0x202F, 0x205F, 0x3000,
      0x000A, 0x000D, 0x2028, 0x2029]"

definition is_white_space :: "code_unit \<Rightarrow> bool" where
  "is_white_space c = (c \<in> set white_space)"

definition trim :: "js_string \<Rightarrow> js_string" where
  "trim s = rev (dropWhile is_white_space (rev (dropWhile is_white_space s)))"

definition truthy :: "'a list \<Rightarrow> bool" where
  "truthy s = (s \<noteq> [])"

text \<open>
  \<open>toUpperCase\<close> is an argument wherever the file calls it. What the claims need of
  it is how it treats ASCII text, where it maps \<open>a\<close>..\<open>z\<close> to \<open>A\<close>..\<open>Z\<close> and
  leaves every other code unit as it is: \<open>upper_on_ascii\<close> says that of a
  function. \<open>ascii_lower\<close> is the lower-case form of a code unit of ASCII.
\<close>

definition ascii_upper :: "code_unit \<Rightarrow> code_unit" where
  "ascii_upper c = (if 0x61 \<le> c \<and> c \<le> 0x7A then c - 0x20 else c)"

definition ascii_lower :: "code_unit \<Rightarrow> code_unit" where
  "ascii_lower c = (if 0x41 \<le> c \<and> c \<le> 0x5A then c + 0x20 else c)"

definition upper_on_ascii :: "(js_string \<Rightarrow> js_string) \<Rightarrow> bool" where
  "upper_on_ascii f = (\<forall>v. list_all (\<lambda>c. c < 0x80) v \<longrightarrow> f v = map ascii_upper v)"

text \<open>
  One function of that kind, used in the examples: upper case for the code units up to
  U+00FF (\<open>U+00B5\<close> becomes \<open>U+039C\<close>, \<open>U+00DF\<close> becomes \<open>SS\<close>, \<open>U+00FF\<close>
  becomes \<open>U+0178\<close>), every code unit above left as it is.
\<close>

definition upper_latin1 :: "code_unit \<Rightarrow> js_string" where
  "upper_latin1 c =
     (if 0x61 \<le> c \<and> c \<le> 0x7A then [c - 0x20]
      else if c = 0xB5 then [0x039C]
      else if c = 0xDF then [0x53, 0x53]
      else if 0xE0 \<le> c \<and> c \<le> 0xFE \<and> c \<noteq> 0xF7 then [c - 0x20]
      else if c = 0xFF then [0x0178]
      else [c])"

definition toUpperCase_latin1 :: "js_string \<Rightarrow> js_string" where
  "toUpperCase_latin1 s = concat (map upper_latin1 s)"

subsection \<open>JavaScript numbers\<close>

text \<open>
  A number is a finite value, given by the rational it denotes (the two zeros are one
  value here), or one of NaN and the two infinities. The file subtracts numbers in
  \<open>startDrawing\<close> and \<open>draw\<close>; the subtraction, which rounds, is an argument
  there. \<open>exact_difference\<close> is the subtraction wherever the difference of two finite
  numbers needs no rounding, as in the examples.
\<close>

datatype js_number = Num rat | NaN | Infinity | NegInfinity

definition finite_number :: "js_number \<Rightarrow> bool" where
  "finite_number n = (case n of Num q \<Rightarrow> True | _ \<Rightarrow> False)"

definition exact_difference :: "js_number \<Rightarrow> js_number \<Rightarrow> js_number" where
  "exact_difference a b =
     (case (a, b) of
        (Num q, Num r) \<Rightarrow> Num (q - r)
      | (Num q, Infinity) \<Rightarrow> NegInfinity
      | (Num q, NegInfinity) \<Rightarrow> Infinity
      | (Infinity, Num r) \<Rightarrow> Infinity
      | (Infinity, NegInfinity) \<Rightarrow> Infinity
      | (NegInfinity, Num r) \<Rightarrow> NegInfinity
      | (NegInfinity, Infinity) \<Rightarrow> NegInfinity
      | _ \<Rightarrow> NaN)"

subsection \<open>Values that travel on the socket\<close>

text \<open>
  The user object is whatever the login endpoint returned under \<open>user\<close>; the client
  stores it and sends it back whole, so it is kept as the list of its fields.
  A socket is known by its identity only.

  A chat message is rendered through its fields \<open>username\<close>, \<open>message\<close> and
  \<open>timestamp\<close>; the \<open>sequence\<close> field is the one the transport description of
  the specification adds. A roster entry is rendered through \<open>socket_id\<close> and
  \<open>username\<close>.
\<close>

type_synonym user_object = "(string \<times> string) list"

datatype socket_io = Socket nat

record named =
  username :: string

record chat_message = named +
  message :: js_string
  timestamp :: string
  sequence :: nat

record roster_entry = named +
  socket_id :: string

record draw_data =
  stroke_x :: js_number
  stroke_y :: js_number
  color :: string
  width :: js_number

text \<open>Events the client emits (\<open>socket.emit\<close>), each with its payload.\<close>

datatype emitted =
    Join_room string user_object          \<comment> \<open>\<open>join_room {room_id, user}\<close>\<close>
  | Update_notes string string            \<comment> \<open>\<open>update_notes {room_id, content}\<close>\<close>
  | Send_chat_message string js_string    \<comment> \<open>\<open>send_chat_message {room_id, message}\<close>\<close>
  | Drawing_data string draw_data         \<comment> \<open>\<open>drawing_data {room_id, data}\<close>\<close>

text \<open>Events the client listens for (\<open>socket.on\<close>), each with its payload.\<close>

datatype received =
    Room_state string "chat_message list" "roster_entry list"
      \<comment> \<open>\<open>room_state {notes_content, chat_messages, users}\<close>\<close>
  | Chat_message chat_message
  | Notes_updated string                  \<comment> \<open>\<open>notes_updated {content}\<close>\<close>
  | User_joined "roster_entry list"       \<comment> \<open>\<open>user_joined {users}\<close>\<close>
  | User_left "roster_entry list"         \<comment> \<open>\<open>user_left {users}\<close>\<close>
  | Drawing_update draw_data              \<comment> \<open>\<open>drawing_update {data}\<close>\<close>

subsection \<open>The canvas\<close>

text \<open>
  The whiteboard's canvas element is in the page only while the whiteboard tab is the
  active one; \<open>canvasRef.current\<close> is null otherwise. Of its 2D context the model
  keeps the two drawing attributes the file sets, the current path, and the list of
  strokes painted so far, each with the style, the width and the path it was painted
  with. \<open>rect_left\<close> and \<open>rect_top\<close> are what \<open>getBoundingClientRect\<close> returns.

  The context follows the HTML Standard. Setting \<open>strokeStyle\<close> to a string that
  does not parse as a CSS colour is ignored; a string that parses sets the attribute,
  which then reads as the serialised colour. \<open>css_color\<close> is the parser of the
  browser that made the canvas: it gives the serialised colour of a string that parses.
  Setting \<open>lineWidth\<close> to zero, to a negative number, to an infinity or to NaN is
  ignored. \<open>moveTo\<close> and \<open>lineTo\<close> do nothing when a coordinate is not finite, and
  \<open>lineTo\<close> on an empty path only sets the point from which the next line starts.
\<close>

datatype path_step = MoveTo js_number js_number | LineTo js_number js_number

record canvas_element =
  css_color :: "string \<Rightarrow> string option"
  strokeStyle :: string
  lineWidth :: js_number
  path :: "path_step list"
  painted :: "(string \<times> js_number \<times> path_step list) list"
  rect_left :: js_number
  rect_top :: js_number

definition accepted_width :: "js_number \<Rightarrow> bool" where
  "accepted_width n = (case n of Num q \<Rightarrow> 0 < q | _ \<Rightarrow> False)"

definition set_strokeStyle :: "string \<Rightarrow> canvas_element \<Rightarrow> canvas_element" where
  "set_strokeStyle v c =
     (case css_color c v of None \<Rightarrow> c | Some serialised \<Rightarrow> c\<lparr>strokeStyle := serialised\<rparr>)"

definition set_lineWidth :: "js_number \<Rightarrow> canvas_element \<Rightarrow> canvas_element" where
  "set_lineWidth w c = (if accepted_width w then c\<lparr>lineWidth := w\<rparr> else c)"

definition beginPath :: "canvas_element \<Rightarrow> canvas_element" where
  "beginPath c = c\<lparr>path := []\<rparr>"

definition moveTo :: "js_number \<Rightarrow> js_number \<Rightarrow> canvas_element \<Rightarrow> canvas_element" where
  "moveTo px py c =
     (if finite_number px \<and> finite_number py then c\<lparr>path := path c @ [MoveTo px py]\<rparr> else c)"

definition lineTo :: "js_number \<Rightarrow> js_number \<Rightarrow> canvas_element \<Rightarrow> canvas_element" where
  "lineTo px py c =
     (if finite_number px \<and> finite_number py
      then (if path c = [] then c\<lparr>path := [MoveTo px py]\<rparr>
            else c\<lparr>path := path c @ [LineTo px py]\<rparr>)
      else c)"

definition stroke :: "canvas_element \<Rightarrow> canvas_element" where
  "stroke c = c\<lparr>painted := painted c @ [(strokeStyle c, lineWidth c, path c)]\<rparr>"

text \<open>A canvas as the browser creates it: black, one pixel wide, nothing drawn.\<close>

definition new_canvas ::
  "(string \<Rightarrow> string option) \<Rightarrow> js_number \<Rightarrow> js_number \<Rightarrow> canvas_element" where
  "new_canvas parser l t =
     \<lparr>css_color = parser, strokeStyle = ''#000000'', lineWidth = Num 1, path = [],
      painted = [], rect_left = l, rect_top = t\<rparr>"

text \<open>
  A parser for the examples: it knows the two colours they use and rejects every
  other string (a browser accepts many more).
\<close>

definition example_css_color :: "string \<Rightarrow> string option" where
  "example_css_color v =
     (if v = ''#000'' then Some ''#000000''
      else if v = ''#f00'' then Some ''#ff0000''
      else None)"

record mouse_event =
  clientX :: js_number
  clientY :: js_number

subsection \<open>The providers: AuthProvider and SocketProvider\<close>

text \<open>
  \<open>user\<close> and \<open>token\<close> are the state cells of AuthProvider, \<open>socket\<close> the one
  of SocketProvider, \<open>localStorage\<close> the browser's store. Null is \<open>None\<close>.
\<close>

record providers =
  user :: "user_object option"
  token :: "string option"
  socket :: "socket_io option"
  localStorage :: "string \<rightharpoonup> string"

subsection \<open>The StudyRoom component\<close>

datatype js_error = TypeError | ReferenceError | SyntaxError | InvalidTokenError

record study_room =
  activeTab :: string
  "notes" :: string
  chatMessages :: "chat_message list"
  newMessage :: js_string
  connectedUsers :: "roster_entry list"
  isDrawing :: bool
  canvas :: "canvas_element option"

text \<open>
  The component as it is mounted: the \<open>useState\<close> and \<open>useRef\<close> initial values.
  The cell \<open>room\<close> is never written or read and is left out.
\<close>

definition StudyRoom_initial :: study_room where
  "StudyRoom_initial =
     \<lparr>activeTab = ''notes'', notes = '''', chatMessages = [], newMessage = [],
      connectedUsers = [], isDrawing = False, canvas = None\<rparr>"

text \<open>
  The listeners the join effect registers with \<open>socket.on\<close>. The one for
  \<open>drawing_update\<close> draws only when \<open>canvasRef.current\<close> is not null.
\<close>

fun on_event :: "received \<Rightarrow> study_room \<Rightarrow> study_room" where
  "on_event (Room_state notes_content chat_messages users) s =
     s\<lparr>notes := notes_content, chatMessages := chat_messages, connectedUsers := users\<rparr>"
| "on_event (Chat_message m) s = s\<lparr>chatMessages := chatMessages s @ [m]\<rparr>"
| "on_event (Notes_updated content) s = s\<lparr>notes := content\<rparr>"
| "on_event (User_joined users) s = s\<lparr>connectedUsers := users\<rparr>"
| "on_event (User_left users) s = s\<lparr>connectedUsers := users\<rparr>"
| "on_event (Drawing_update drawData) s =
     (case canvas s of
        None \<Rightarrow> s
      | Some ctx \<Rightarrow>
          s\<lparr>canvas := Some (stroke (lineTo (stroke_x drawData) (stroke_y drawData)
                 (set_lineWidth (width drawData) (set_strokeStyle (color drawData) ctx))))\<rparr>)"

text \<open>Events are handled one at a time, in the order in which they arrive.\<close>

definition receive_all :: "received list \<Rightarrow> study_room \<Rightarrow> study_room" where
  "receive_all evs s = foldl (\<lambda>st ev. on_event ev st) s evs"

text \<open>
  The join effect: when the socket, the user and the room id are all there it emits
  \<open>join_room\<close> (and registers the listeners above).
\<close>

definition join_effect :: "providers \<Rightarrow> string \<Rightarrow> emitted list" where
  "join_effect p roomId =
     (case (socket p, user p) of
        (Some sk, Some u) \<Rightarrow> if truthy roomId then [Join_room roomId u] else []
      | _ \<Rightarrow> [])"

definition handleNotesChange ::
  "providers \<Rightarrow> string \<Rightarrow> string \<Rightarrow> study_room \<Rightarrow> study_room \<times> emitted list" where
  "handleNotesChange p roomId content s =
     (s\<lparr>notes := content\<rparr>,
      if socket p \<noteq> None then [Update_notes roomId content] else [])"

definition sendMessage ::
  "providers \<Rightarrow> string \<Rightarrow> study_room \<Rightarrow> study_room \<times> emitted list" where
  "sendMessage p roomId s =
     (if truthy (trim (newMessage s)) \<and> socket p \<noteq> None
      then (s\<lparr>newMessage := []\<rparr>, [Send_chat_message roomId (trim (newMessage s))])
      else (s, []))"

text \<open>
  The notes editor. While the notes tab is the active one the page holds
  \<open><ReactQuill value={notes} onChange={handleNotesChange}/>\<close>. When the value it is
  given changes, the editor takes the value in and turns it into its own HTML
  (\<open>editor_html\<close>, an argument); when that HTML is not the value it was given, the
  editor calls \<open>onChange\<close> with the HTML. After that call the value is the HTML the
  editor already holds, and the editor stays quiet. \<open>receive_rendered\<close> is a
  listener followed by this reaction of the editor; \<open>receive_all_rendered\<close> handles
  a sequence of events so and collects what is emitted.
\<close>

definition receive_rendered ::
  "(string \<Rightarrow> string) \<Rightarrow> providers \<Rightarrow> string \<Rightarrow> received \<Rightarrow> study_room \<Rightarrow>
     study_room \<times> emitted list" where
  "receive_rendered editor_html p roomId ev s =
     (let s' = on_event ev s
      in if activeTab s' = ''notes'' \<and> notes s' \<noteq> notes s \<and> editor_html (notes s') \<noteq> notes s'
         then handleNotesChange p roomId (editor_html (notes s')) s'
         else (s', []))"

fun receive_all_rendered ::
  "(string \<Rightarrow> string) \<Rightarrow> providers \<Rightarrow> string \<Rightarrow> received list \<Rightarrow> study_room \<Rightarrow>
     study_room \<times> emitted list" where
  "receive_all_rendered editor_html p roomId [] s = (s, [])"
| "receive_all_rendered editor_html p roomId (ev # evs) s =
     (case receive_rendered editor_html p roomId ev s of
        (s', out) \<Rightarrow>
          (case receive_all_rendered editor_html p roomId evs s' of
             (s'', out') \<Rightarrow> (s'', out @ out')))"

text \<open>
  An editor for the examples: given \<open>plain text\<close> it holds \<open><p>plain text</p>\<close>,
  as Quill does, and it holds every other value as given.
\<close>

definition example_editor_html :: "string \<Rightarrow> string" where
  "example_editor_html v = (if v = ''plain text'' then ''<p>plain text</p>'' else v)"

text \<open>
  The whiteboard handlers read \<open>canvasRef.current\<close> without a check: with no canvas in
  the page \<open>canvas.getContext\<close> throws a TypeError. A handler that throws returns
  the error with the state as the updates made before the throw leave it. \<open>sub\<close> is
  the subtraction of numbers.
\<close>

definition startDrawing ::
  "(js_number \<Rightarrow> js_number \<Rightarrow> js_number) \<Rightarrow> mouse_event \<Rightarrow> study_room \<Rightarrow>
     js_error \<times> study_room + study_room" where
  "startDrawing sub e s =
     (case canvas s of
        None \<Rightarrow> Inl (TypeError, s\<lparr>isDrawing := True\<rparr>)
      | Some ctx \<Rightarrow>
          Inr (s\<lparr>isDrawing := True,
                 canvas := Some (moveTo (sub (clientX e) (rect_left ctx))
                                   (sub (clientY e) (rect_top ctx)) (beginPath ctx))\<rparr>))"

definition draw ::
  "(js_number \<Rightarrow> js_number \<Rightarrow> js_number) \<Rightarrow> providers \<Rightarrow> string \<Rightarrow> mouse_event \<Rightarrow>
     study_room \<Rightarrow> js_error \<times> study_room + study_room \<times> emitted list" where
  "draw sub p roomId e s =
     (if \<not> isDrawing s then Inr (s, [])
      else
        (case canvas s of
           None \<Rightarrow> Inl (TypeError, s)
         | Some ctx \<Rightarrow>
             (let px = sub (clientX e) (rect_left ctx);
                  py = sub (clientY e) (rect_top ctx)
              in Inr (s\<lparr>canvas := Some (stroke (lineTo px py
                          (set_strokeStyle ''#000'' (set_lineWidth (Num 2) ctx))))\<rparr>,
                      if socket p \<noteq> None
                      then [Drawing_data roomId
                              \<lparr>stroke_x = px, stroke_y = py, color = ''#000'', width = Num 2\<rparr>]
                      else []))))"

definition stopDrawing :: "study_room \<Rightarrow> study_room" where
  "stopDrawing s = s\<lparr>isDrawing := False\<rparr>"

text \<open>
  Choosing a tab: the canvas is rendered under \<open>activeTab === "whiteboard"\<close>, so it
  leaves the page with any other tab, and a new one (\<open>fresh\<close>) is created when the
  whiteboard is chosen again.
\<close>

definition setActiveTab :: "canvas_element \<Rightarrow> string \<Rightarrow> study_room \<Rightarrow> study_room" where
  "setActiveTab fresh tab s =
     s\<lparr>activeTab := tab,
       canvas := (if tab = ''whiteboard''
                  then (if activeTab s = ''whiteboard'' then canvas s else Some fresh)
                  else None)\<rparr>"

subsection \<open>AuthProvider\<close>

definition logout :: "providers \<Rightarrow> providers" where
  "logout p =
     p\<lparr>localStorage := (localStorage p)(''token'' := None, ''user'' := None),
       token := None, user := None\<rparr>"

text \<open>
  \<open>login\<close> and \<open>register\<close> post the credentials and, when the request succeeds,
  store the token and the user of the response. The response of the endpoint is an
  argument: \<open>Inl\<close> a rejected request, \<open>Inr\<close> the pair of \<open>access_token\<close> and
  \<open>user\<close>. \<open>JSON.stringify\<close> is an argument too.
\<close>

datatype http_error = Http_error string

definition login ::
  "(user_object \<Rightarrow> string) \<Rightarrow> http_error + string \<times> user_object \<Rightarrow> providers \<Rightarrow> providers" where
  "login stringify response p =
     (case response of
        Inl err \<Rightarrow> p
      | Inr (access_token, userData) \<Rightarrow>
          p\<lparr>localStorage :=
              (localStorage p)(''token'' \<mapsto> access_token, ''user'' \<mapsto> stringify userData),
            token := Some access_token, user := Some userData\<rparr>)"

definition register ::
  "(user_object \<Rightarrow> string) \<Rightarrow> http_error + string \<times> user_object \<Rightarrow> providers \<Rightarrow> providers" where
  "register stringify response p =
     (case response of
        Inl err \<Rightarrow> p
      | Inr (access_token, userData) \<Rightarrow>
          p\<lparr>localStorage :=
              (localStorage p)(''token'' \<mapsto> access_token, ''user'' \<mapsto> stringify userData),
            token := Some access_token, user := Some userData\<rparr>)"

text \<open>
  The identifiers the token effect can see: the ones AuthProvider binds around it, and
  the ones the file imports or declares at its top level. Any other identifier is looked
  up among the globals of the page, which are an argument. Of all these bindings only
  the imported \<open>jwtDecode\<close> decodes a token; calling an identifier that has no binding
  throws a ReferenceError.
\<close>

definition AuthProvider_scope :: "string list" where
  "AuthProvider_scope =
     [''children'', ''user'', ''setUser'', ''token'', ''setToken'', ''decoded'', ''userData'',
      ''error'', ''login'', ''register'', ''logout'']"

definition module_scope :: "string list" where
  "module_scope =
     [''React'', ''useState'', ''useEffect'', ''createContext'', ''useContext'',
      ''BrowserRouter'', ''Routes'', ''Route'', ''Navigate'', ''Link'', ''useNavigate'',
      ''useParams'', ''io'', ''ReactQuill'', ''axios'', ''jwtDecode'',
      ''BACKEND_URL'', ''API'', ''AuthContext'', ''useAuth'', ''SocketContext'', ''useSocket'',
      ''AuthProvider'', ''SocketProvider'', ''Navbar'', ''Login'', ''Dashboard'', ''StudyRoom'',
      ''StudyRoomWrapper'', ''PrivateRoute'', ''App'']"

datatype jwt_payload = Payload (exp_claim: "real option")

datatype binding = Decoder "string \<Rightarrow> js_error + jwt_payload" | Not_a_decoder

definition resolve ::
  "(string \<rightharpoonup> binding) \<Rightarrow> (string \<Rightarrow> js_error + jwt_payload) \<Rightarrow> string \<Rightarrow> binding option" where
  "resolve globals jwtDecode ident =
     (if ident \<in> set (AuthProvider_scope @ module_scope)
      then (if ident = ''jwtDecode'' then Some (Decoder jwtDecode) else Some Not_a_decoder)
      else globals ident)"

definition call :: "binding option \<Rightarrow> string \<Rightarrow> js_error + jwt_payload" where
  "call b arg =
     (case b of
        None \<Rightarrow> Inl ReferenceError
      | Some Not_a_decoder \<Rightarrow> Inl TypeError
      | Some (Decoder f) \<Rightarrow> f arg)"

text \<open>
  The effect that checks the token. \<open>Date.now()\<close> and \<open>JSON.parse\<close> are
  arguments; \<open>JSON.parse\<close> throws, or answers with the value, which is \<open>None\<close>
  when the text is \<open>null\<close>. A payload with no \<open>exp\<close> makes the comparison false.
\<close>

definition token_effect ::
  "(string \<rightharpoonup> binding) \<Rightarrow> (string \<Rightarrow> js_error + jwt_payload) \<Rightarrow>
   (string \<Rightarrow> js_error + user_object option) \<Rightarrow> real \<Rightarrow> providers \<Rightarrow> providers" where
  "token_effect globals jwtDecode JSON_parse now p =
     (case token p of
        None \<Rightarrow> p
      | Some t \<Rightarrow>
          if \<not> truthy t then p
          else
            (case call (resolve globals jwtDecode ''jwt_decode'') t of
               Inl error \<Rightarrow> logout p
             | Inr decoded \<Rightarrow>
                 (case exp_claim decoded of
                    None \<Rightarrow> logout p
                  | Some e \<Rightarrow>
                      if e * 1000 > now
                      then
                        (case JSON_parse
                                (case localStorage p ''user'' of
                                   None \<Rightarrow> ''{}''
                                 | Some u \<Rightarrow> if truthy u then u else ''{}'') of
                           Inl error \<Rightarrow> logout p
                         | Inr userData \<Rightarrow> p\<lparr>user := userData\<rparr>)
                      else logout p)))"

text \<open>The providers as the page loads: the token cell starts from the stored token.\<close>

definition providers_initial :: "(string \<rightharpoonup> string) \<Rightarrow> providers" where
  "providers_initial store =
     \<lparr>user = None, token = store ''token'', socket = None, localStorage = store\<rparr>"

definition page_load ::
  "(string \<rightharpoonup> binding) \<Rightarrow> (string \<Rightarrow> js_error + jwt_payload) \<Rightarrow>
   (string \<Rightarrow> js_error + user_object option) \<Rightarrow> real \<Rightarrow> (string \<rightharpoonup> string) \<Rightarrow> providers" where
  "page_load globals jwtDecode JSON_parse now store =
     token_effect globals jwtDecode JSON_parse now (providers_initial store)"

subsection \<open>SocketProvider and PrivateRoute\<close>

text \<open>
  The effect of SocketProvider opens a socket when there is a user; \<open>newSocket\<close> is what
  \<open>io\<close> returns. PrivateRoute renders its children when there is a user and a
  redirection to the login page otherwise (\<open>None\<close>).
\<close>

definition SocketProvider_effect :: "socket_io \<Rightarrow> providers \<Rightarrow> providers" where
  "SocketProvider_effect newSocket p =
     (if user p \<noteq> None then p\<lparr>socket := Some newSocket\<rparr> else p)"

definition PrivateRoute :: "providers \<Rightarrow> 'a \<Rightarrow> 'a option" where
  "PrivateRoute p children = (if user p \<noteq> None then Some children else None)"

text \<open>
  Everything in StudyRoom that can emit: the join effect and the handlers of the notes
  editor, the chat form and the canvas. The route \<open>/room/:roomId\<close> renders StudyRoom
  inside PrivateRoute, so none of them runs when PrivateRoute redirects.
\<close>

datatype room_action =
    Run_join_effect
  | Notes_change string
  | Submit_chat
  | Mouse_down mouse_event
  | Mouse_move mouse_event
  | Mouse_up

definition StudyRoom_act ::
  "(js_number \<Rightarrow> js_number \<Rightarrow> js_number) \<Rightarrow> providers \<Rightarrow> string \<Rightarrow> room_action \<Rightarrow>
     study_room \<Rightarrow> js_error \<times> study_room + study_room \<times> emitted list" where
  "StudyRoom_act sub p roomId act s =
     (case act of
        Run_join_effect \<Rightarrow> Inr (s, join_effect p roomId)
      | Notes_change content \<Rightarrow> Inr (handleNotesChange p roomId content s)
      | Submit_chat \<Rightarrow> Inr (sendMessage p roomId s)
      | Mouse_down e \<Rightarrow>
          (case startDrawing sub e s of Inl err \<Rightarrow> Inl err | Inr s' \<Rightarrow> Inr (s', []))
      | Mouse_move e \<Rightarrow> draw sub p roomId e s
      | Mouse_up \<Rightarrow> Inr (stopDrawing s, []))"

definition emitted_by ::
  "js_error \<times> study_room + study_room \<times> emitted list \<Rightarrow> emitted list" where
  "emitted_by r = (case r of Inl err \<Rightarrow> [] | Inr (s, out) \<Rightarrow> out)"

definition room_route ::
  "(js_number \<Rightarrow> js_number \<Rightarrow> js_number) \<Rightarrow> providers \<Rightarrow> string \<Rightarrow> room_action \<Rightarrow>
     study_room \<Rightarrow> emitted list" where
  "room_route sub p roomId act s =
     (case PrivateRoute p (StudyRoom_act sub p roomId act s) of
        None \<Rightarrow> []
      | Some r \<Rightarrow> emitted_by r)"

subsection \<open>The Dashboard: joining a room by its code\<close>

text \<open>
  The field \<open>room_ident\<close> is the \<open>id\<close> of a room. The join endpoint is an
  argument of \<open>joinRoom\<close>: it answers a request with the room (\<open>Inr\<close>) or rejects
  it (\<open>Inl\<close>). \<open>toUpperCase\<close> is an argument of the handler of the join field.
\<close>

record room_info =
  room_ident :: string
  name :: string
  room_code :: js_string
  participants :: "string list"

record dashboard =
  rooms :: "room_info list"
  showCreateRoom :: bool
  showJoinRoom :: bool
  roomName :: string
  roomCode :: js_string
  loading :: bool

datatype api_request = Post_rooms_join (sent_room_code: js_string) (sent_authorization: string)

definition authorization :: "providers \<Rightarrow> string" where
  "authorization p = ''Bearer '' @ (case token p of None \<Rightarrow> ''null'' | Some t \<Rightarrow> t)"

definition roomCode_onChange ::
  "(js_string \<Rightarrow> js_string) \<Rightarrow> js_string \<Rightarrow> dashboard \<Rightarrow> dashboard" where
  "roomCode_onChange toUpperCase target_value d = d\<lparr>roomCode := toUpperCase target_value\<rparr>"

definition join_request :: "providers \<Rightarrow> dashboard \<Rightarrow> api_request" where
  "join_request p d = Post_rooms_join (roomCode d) (authorization p)"

definition joinRoom ::
  "(api_request \<Rightarrow> http_error + room_info) \<Rightarrow> providers \<Rightarrow> dashboard \<Rightarrow> dashboard \<times> string option" where
  "joinRoom endpoint p d =
     (case endpoint (join_request p d) of
        Inr data \<Rightarrow>
          (d\<lparr>rooms := rooms d @ [data], roomCode := [], showJoinRoom := False, loading := False\<rparr>,
           Some (''/room/'' @ room_ident data))
      | Inl err \<Rightarrow> (d\<lparr>loading := False\<rparr>, None))"

text \<open>
  Modelled from the spec: the alphabet of join codes, which the server issues
  (``fixed-length uppercase alphanumeric''); the code that generates them is not part of
  the client. \<open>lower_case_rendering\<close> is such a code typed in lower case.
\<close>

definition is_join_code :: "js_string \<Rightarrow> bool" where
  "is_join_code k =
     (k \<noteq> [] \<and> list_all (\<lambda>c. (0x41 \<le> c \<and> c \<le> 0x5A) \<or> (0x30 \<le> c \<and> c \<le> 0x39)) k)"

definition lower_case_rendering :: "js_string \<Rightarrow> js_string" where
  "lower_case_rendering k = map ascii_lower k"

section \<open>Chat\<close>

lemma chatMessages_receive_all_Chat_message:
  "chatMessages (receive_all (map Chat_message ms) s) = chatMessages s @ ms"
  unfolding receive_all_def by (induction ms arbitrary: s) simp_all

text \<open>
  C1. Whatever chat messages arrive, and in whatever state of the room, the chat list
  afterwards is the list before followed by the messages in their order of arrival:
  every message that was there stays where it was, and each new one goes to the end.
\<close>

theorem chat_messages_appended_in_order_of_receipt:
  "chatMessages (receive_all (map Chat_message ms) s) = chatMessages s @ ms
   \<and> take (length (chatMessages s)) (chatMessages (receive_all (map Chat_message ms) s))
       = chatMessages s
   \<and> drop (length (chatMessages s)) (chatMessages (receive_all (map Chat_message ms) s)) = ms"
  by (simp add: chatMessages_receive_all_Chat_message)

text \<open>
  C2. Submitting a chat message leaves the local chat list as it was. The copy the
  sender sees is the message of the server's \<open>chat_message\<close> event, put at the end
  of the list by the listener, with the username, timestamp and sequence the server
  gave it.
\<close>

theorem sender_copy_is_the_broadcast_message:
  "chatMessages (fst (sendMessage p rid s)) = chatMessages s
   \<and> chatMessages (on_event (Chat_message m) (fst (sendMessage p rid s))) = chatMessages s @ [m]
   \<and> last (chatMessages (on_event (Chat_message m) (fst (sendMessage p rid s)))) = m"
  by (simp add: sendMessage_def)

subsection \<open>The socket of StudyRoom\<close>

text \<open>
  SocketProvider opens the socket in the commit that first has a user, and nothing in
  the file sets the socket cell back to null: the operations of AuthProvider leave it
  as it is. StudyRoom is rendered only for a user and only after a navigation, so the
  socket is there whenever one of its handlers runs; what a handler emits is stated
  below for a socket that exists.
\<close>

lemma socket_opened_for_user:
  "user p \<noteq> None \<Longrightarrow> socket (SocketProvider_effect newSocket p) = Some newSocket"
  by (simp add: SocketProvider_effect_def)

lemma socket_stays:
  "socket p \<noteq> None \<Longrightarrow> socket (SocketProvider_effect newSocket p) \<noteq> None"
  "socket (logout p) = socket p"
  "socket (login stringify response p) = socket p"
  "socket (register stringify response p) = socket p"
  by (simp_all add: SocketProvider_effect_def logout_def login_def register_def
        split: sum.splits prod.splits)

lemma socket_token_effect:
  "socket (token_effect globals jwtDecode JSON_parse now p) = socket p"
  by (simp add: token_effect_def logout_def split: option.splits sum.splits)

lemma trim_example: "trim (utf16 ''  hi there  '') = utf16 ''hi there''"
  by (simp add: trim_def is_white_space_def white_space_def utf16_def)

lemma trim_no_break_space: "trim [0x00A0, 0x0020, 0xFEFF] = []"
  by (simp add: trim_def is_white_space_def white_space_def)

lemma sendMessage_cases:
  "sendMessage p rid s =
     (if trim (newMessage s) \<noteq> [] \<and> socket p \<noteq> None
      then (s\<lparr>newMessage := []\<rparr>, [Send_chat_message rid (trim (newMessage s))])
      else (s, []))"
  by (simp add: sendMessage_def truthy_def)

text \<open>
  C3. For every input string, \<open>sendMessage\<close> emits \<open>send_chat_message\<close> exactly
  when the trimmed input is not empty. When it emits, it emits that one event, the
  message of the payload is the trimmed input, and the input field is cleared. When
  the trimmed input is empty, nothing is emitted and the state of the component is
  unchanged. (The socket is there, as it is whenever the chat form can be submitted.)
\<close>

theorem sendMessage_emits_iff_trimmed_text_nonempty:
  assumes "socket p \<noteq> None"
  shows "(snd (sendMessage p rid s) \<noteq> []) = (trim (newMessage s) \<noteq> [])
   \<and> (trim (newMessage s) \<noteq> [] \<longrightarrow>
        sendMessage p rid s =
          (s\<lparr>newMessage := []\<rparr>, [Send_chat_message rid (trim (newMessage s))]))
   \<and> (trim (newMessage s) = [] \<longrightarrow> sendMessage p rid s = (s, []))"
  using assms by (simp add: sendMessage_cases)

theorem sendMessage_emits_iff_trimmed_text_nonempty_witness:
  "socket \<lparr>user = Some [], token = Some ''t'', socket = Some (Socket 1),
           localStorage = Map.empty\<rparr> \<noteq> None
   \<and> trim (utf16 ''  hi  '') = utf16 ''hi''
   \<and> sendMessage \<lparr>user = Some [], token = Some ''t'', socket = Some (Socket 1),
                  localStorage = Map.empty\<rparr> ''r1''
        (StudyRoom_initial\<lparr>newMessage := utf16 ''  hi  ''\<rparr>)
       = ((StudyRoom_initial\<lparr>newMessage := utf16 ''  hi  ''\<rparr>)\<lparr>newMessage := []\<rparr>,
          [Send_chat_message ''r1'' (utf16 ''hi'')])
   \<and> trim [0x00A0, 0x0020] = []
   \<and> sendMessage \<lparr>user = Some [], token = Some ''t'', socket = Some (Socket 1),
                  localStorage = Map.empty\<rparr> ''r1''
        (StudyRoom_initial\<lparr>newMessage := [0x00A0, 0x0020]\<rparr>)
       = (StudyRoom_initial\<lparr>newMessage := [0x00A0, 0x0020]\<rparr>, [])"
proof -
  let ?p = "\<lparr>user = Some [], token = Some ''t'', socket = Some (Socket 1),
             localStorage = Map.empty\<rparr>"
  have sk: "socket ?p \<noteq> None" by simp
  have t1: "trim (utf16 ''  hi  '') = utf16 ''hi''"
    by (simp add: trim_def is_white_space_def white_space_def utf16_def)
  have t2: "trim [0x00A0, 0x0020] = []"
    by (simp add: trim_def is_white_space_def white_space_def)
  have ne: "utf16 ''hi'' \<noteq> []" by (simp add: utf16_def)
  have 1: "sendMessage ?p ''r1'' (StudyRoom_initial\<lparr>newMessage := utf16 ''  hi  ''\<rparr>)
       = ((StudyRoom_initial\<lparr>newMessage := utf16 ''  hi  ''\<rparr>)\<lparr>newMessage := []\<rparr>,
          [Send_chat_message ''r1'' (utf16 ''hi'')])"
    using sendMessage_emits_iff_trimmed_text_nonempty
      [OF sk, where s = "StudyRoom_initial\<lparr>newMessage := utf16 ''  hi  ''\<rparr>" and rid = "''r1''"] t1 ne
    by simp
  have 2: "sendMessage ?p ''r1'' (StudyRoom_initial\<lparr>newMessage := [0x00A0, 0x0020]\<rparr>)
       = (StudyRoom_initial\<lparr>newMessage := [0x00A0, 0x0020]\<rparr>, [])"
    using sendMessage_emits_iff_trimmed_text_nonempty
      [OF sk, where s = "StudyRoom_initial\<lparr>newMessage := [0x00A0, 0x0020]\<rparr>" and rid = "''r1''"] t2
    by simp
  from sk t1 1 t2 2 show ?thesis by blast
qed

text \<open>
  C5, as the claim states it, fails for chat: a submitted message is emitted, and the
  sender's chat list is still empty afterwards.
\<close>

theorem chat_not_shown_before_broadcast_counterexample:
  "snd (sendMessage
          \<lparr>user = Some [], token = None, socket = Some (Socket 0), localStorage = Map.empty\<rparr>
          ''r1'' (StudyRoom_initial\<lparr>newMessage := utf16 ''hi''\<rparr>))
     = [Send_chat_message ''r1'' (utf16 ''hi'')]
   \<and> chatMessages (fst (sendMessage
          \<lparr>user = Some [], token = None, socket = Some (Socket 0), localStorage = Map.empty\<rparr>
          ''r1'' (StudyRoom_initial\<lparr>newMessage := utf16 ''hi''\<rparr>))) = []"
  by (simp add: sendMessage_def truthy_def trim_def is_white_space_def white_space_def
        utf16_def StudyRoom_initial_def)

text \<open>
  C5, amended. A notes edit updates the client's own notes at once, before any echo of
  the server: it sets the local notes to the edited content and then emits
  \<open>update_notes\<close> with that content (the socket is there, as it is whenever the
  editor can be used). A chat submission leaves the sender's chat list as it was; the
  message enters the list when the server's \<open>chat_message\<close> event arrives and the
  listener appends it.
\<close>

theorem notes_edit_is_local_chat_waits_for_broadcast:
  "notes (fst (handleNotesChange p rid c s)) = c
   \<and> (socket p \<noteq> None \<longrightarrow> snd (handleNotesChange p rid c s) = [Update_notes rid c])
   \<and> chatMessages (fst (sendMessage p rid s)) = chatMessages s
   \<and> chatMessages (on_event (Chat_message m) (fst (sendMessage p rid s))) = chatMessages s @ [m]"
  by (simp add: handleNotesChange_def sendMessage_def)

theorem notes_edit_is_local_chat_waits_for_broadcast_witness:
  "socket \<lparr>user = Some [], token = Some ''t'', socket = Some (Socket 1),
           localStorage = Map.empty\<rparr> \<noteq> None
   \<and> handleNotesChange \<lparr>user = Some [], token = Some ''t'', socket = Some (Socket 1),
           localStorage = Map.empty\<rparr> ''r1'' ''<p>x</p>'' StudyRoom_initial
       = (StudyRoom_initial\<lparr>notes := ''<p>x</p>''\<rparr>, [Update_notes ''r1'' ''<p>x</p>''])"
proof -
  let ?p = "\<lparr>user = Some [], token = Some ''t'', socket = Some (Socket 1),
             localStorage = Map.empty\<rparr>"
  have sk: "socket ?p \<noteq> None" by simp
  have st: "fst (handleNotesChange ?p ''r1'' ''<p>x</p>'' StudyRoom_initial)
              = StudyRoom_initial\<lparr>notes := ''<p>x</p>''\<rparr>"
    by (simp add: handleNotesChange_def)
  have "snd (handleNotesChange ?p ''r1'' ''<p>x</p>'' StudyRoom_initial)
          = [Update_notes ''r1'' ''<p>x</p>'']"
    using sk notes_edit_is_local_chat_waits_for_broadcast
      [of ?p "''r1''" "''<p>x</p>''" StudyRoom_initial] by blast
  with st sk show ?thesis by (simp add: prod_eq_iff)
qed

section \<open>Notes\<close>

lemma notes_receive_all_Notes_updated:
  "notes (receive_all (map Notes_updated cs) s) = (if cs = [] then notes s else last cs)"
  unfolding receive_all_def by (induction cs arbitrary: s) simp_all

lemma receive_rendered_Notes_updated:
  "fst (receive_rendered h p rid (Notes_updated c) s) =
     s\<lparr>notes := (if activeTab s = ''notes'' \<and> c \<noteq> notes s \<and> h c \<noteq> c then h c else c)\<rparr>"
  by (simp add: receive_rendered_def handleNotesChange_def Let_def)

lemma emitted_receive_rendered_Notes_updated:
  "snd (receive_rendered h p rid (Notes_updated c) s) =
     (if activeTab s = ''notes'' \<and> c \<noteq> notes s \<and> h c \<noteq> c \<and> socket p \<noteq> None
      then [Update_notes rid (h c)] else [])"
  by (simp add: receive_rendered_def handleNotesChange_def Let_def)

lemma fst_receive_all_rendered_Cons:
  "fst (receive_all_rendered h p rid (ev # evs) s) =
     fst (receive_all_rendered h p rid evs (fst (receive_rendered h p rid ev s)))"
  by (simp add: case_prod_beta)

lemma receive_all_rendered_snoc:
  "fst (receive_all_rendered h p rid (evs @ [ev]) s) =
     fst (receive_rendered h p rid ev (fst (receive_all_rendered h p rid evs s)))"
proof (induction evs arbitrary: s)
  case Nil
  show ?case by (simp add: case_prod_beta)
next
  case (Cons e evs)
  show ?case
    using Cons.IH [of "fst (receive_rendered h p rid e s)"]
    by (simp only: append_Cons fst_receive_all_rendered_Cons)
qed

lemma activeTab_receive_rendered:
  "activeTab (fst (receive_rendered h p rid ev s)) = activeTab s"
  by (cases ev; cases "canvas s")
     (simp_all add: receive_rendered_def handleNotesChange_def Let_def)

lemma activeTab_receive_all_rendered:
  "activeTab (fst (receive_all_rendered h p rid evs s)) = activeTab s"
proof (induction evs arbitrary: s)
  case Nil
  show ?case by simp
next
  case (Cons e evs)
  show ?case
    using Cons.IH [of "fst (receive_rendered h p rid e s)"]
    by (simp only: fst_receive_all_rendered_Cons activeTab_receive_rendered)
qed

text \<open>
  C4, as the claim states it, fails while the notes editor is in the page, which is how
  the room starts: after \<open>notes_updated\<close> with the content \<open>plain text\<close> the editor
  calls \<open>handleNotesChange\<close> with its HTML, the notes end as \<open><p>plain text</p>\<close>
  and not as the received content, and \<open>update_notes\<close> is emitted.
\<close>

theorem notes_updated_with_editor_counterexample:
  "notes (fst (receive_all_rendered
        example_editor_html
        \<lparr>user = Some [], token = Some ''t'', socket = Some (Socket 1), localStorage = Map.empty\<rparr>
        ''r1'' [Notes_updated ''plain text''] StudyRoom_initial)) = ''<p>plain text</p>''
   \<and> snd (receive_all_rendered
        example_editor_html
        \<lparr>user = Some [], token = Some ''t'', socket = Some (Socket 1), localStorage = Map.empty\<rparr>
        ''r1'' [Notes_updated ''plain text''] StudyRoom_initial)
       = [Update_notes ''r1'' ''<p>plain text</p>'']"
  by (simp add: receive_rendered_def handleNotesChange_def StudyRoom_initial_def Let_def
        example_editor_html_def)

text \<open>
  C4, amended. After any sequence of \<open>notes_updated\<close> events that is not empty, the
  notes are decided by the last update alone, whatever came before it: they are the
  content of the last update or the editor's HTML of that content. They are the
  content itself whenever the notes tab is not the active one (no editor in the page)
  and whenever the editor's HTML of the content is the content. For one event the
  conjuncts say exactly when the editor steps in: the notes tab is the active one, the
  content differs from the notes before, and the editor's HTML differs from the
  content; then the notes become that HTML and, the socket being there,
  \<open>update_notes\<close> is emitted with it. The listener by itself always leaves the
  content of the last update.
\<close>

theorem notes_last_update_alone_decides:
  "(notes (fst (receive_all_rendered h p rid (map Notes_updated (cs @ [c])) s)) = c
      \<or> notes (fst (receive_all_rendered h p rid (map Notes_updated (cs @ [c])) s)) = h c)
   \<and> (activeTab s \<noteq> ''notes'' \<longrightarrow>
        notes (fst (receive_all_rendered h p rid (map Notes_updated (cs @ [c])) s)) = c)
   \<and> (h c = c \<longrightarrow>
        notes (fst (receive_all_rendered h p rid (map Notes_updated (cs @ [c])) s)) = c)
   \<and> fst (receive_rendered h p rid (Notes_updated c) s) =
        s\<lparr>notes := (if activeTab s = ''notes'' \<and> c \<noteq> notes s \<and> h c \<noteq> c then h c else c)\<rparr>
   \<and> (socket p \<noteq> None \<longrightarrow>
        snd (receive_rendered h p rid (Notes_updated c) s) =
          (if activeTab s = ''notes'' \<and> c \<noteq> notes s \<and> h c \<noteq> c
           then [Update_notes rid (h c)] else []))
   \<and> notes (receive_all (map Notes_updated (cs @ [c])) s) = c"
proof -
  let ?before = "fst (receive_all_rendered h p rid (map Notes_updated cs) s)"
  have last_step:
    "notes (fst (receive_all_rendered h p rid (map Notes_updated (cs @ [c])) s)) =
       (if activeTab s = ''notes'' \<and> c \<noteq> notes ?before \<and> h c \<noteq> c then h c else c)"
    by (simp add: receive_all_rendered_snoc receive_rendered_Notes_updated
          activeTab_receive_all_rendered)
  have bare: "notes (receive_all (map Notes_updated (cs @ [c])) s) = c"
    using notes_receive_all_Notes_updated [of "cs @ [c]" s] by simp
  have one: "fst (receive_rendered h p rid (Notes_updated c) s) =
        s\<lparr>notes := (if activeTab s = ''notes'' \<and> c \<noteq> notes s \<and> h c \<noteq> c then h c else c)\<rparr>"
    by (rule receive_rendered_Notes_updated)
  have echo: "socket p \<noteq> None \<Longrightarrow>
        snd (receive_rendered h p rid (Notes_updated c) s) =
          (if activeTab s = ''notes'' \<and> c \<noteq> notes s \<and> h c \<noteq> c
           then [Update_notes rid (h c)] else [])"
    by (simp add: emitted_receive_rendered_Notes_updated)
  show ?thesis
    unfolding last_step using bare one echo by simp
qed

theorem notes_last_update_alone_decides_witness:
  "activeTab (StudyRoom_initial\<lparr>activeTab := ''chat''\<rparr>) \<noteq> ''notes''
   \<and> notes (fst (receive_all_rendered
        example_editor_html
        \<lparr>user = Some [], token = Some ''t'', socket = Some (Socket 1), localStorage = Map.empty\<rparr>
        ''r1'' (map Notes_updated ([''<p>a</p>''] @ [''plain text'']))
        (StudyRoom_initial\<lparr>activeTab := ''chat''\<rparr>))) = ''plain text''
   \<and> notes (fst (receive_all_rendered
        example_editor_html
        \<lparr>user = Some [], token = Some ''t'', socket = Some (Socket 1), localStorage = Map.empty\<rparr>
        ''r1'' (map Notes_updated ([''plain text''] @ [''<p>b</p>''])) StudyRoom_initial))
       = ''<p>b</p>''
   \<and> socket \<lparr>user = Some [], token = Some ''t'', socket = Some (Socket 1),
             localStorage = Map.empty\<rparr> \<noteq> None
   \<and> receive_rendered example_editor_html
        \<lparr>user = Some [], token = Some ''t'', socket = Some (Socket 1), localStorage = Map.empty\<rparr>
        ''r1'' (Notes_updated ''plain text'') StudyRoom_initial
       = (StudyRoom_initial\<lparr>notes := ''<p>plain text</p>''\<rparr>,
          [Update_notes ''r1'' ''<p>plain text</p>''])"
proof -
  let ?h = example_editor_html
  let ?p = "\<lparr>user = Some [], token = Some ''t'', socket = Some (Socket 1),
             localStorage = Map.empty\<rparr>"
  have tab: "activeTab (StudyRoom_initial\<lparr>activeTab := ''chat''\<rparr>) \<noteq> ''notes''"
    by simp
  have 1: "notes (fst (receive_all_rendered ?h ?p ''r1''
             (map Notes_updated ([''<p>a</p>''] @ [''plain text'']))
             (StudyRoom_initial\<lparr>activeTab := ''chat''\<rparr>))) = ''plain text''"
    using tab notes_last_update_alone_decides
      [where s = "StudyRoom_initial\<lparr>activeTab := ''chat''\<rparr>" and c = "''plain text''"
         and cs = "[''<p>a</p>'']" and h = ?h and p = ?p and rid = "''r1''"]
    by blast
  have fixed: "?h ''<p>b</p>'' = ''<p>b</p>''" by (simp add: example_editor_html_def)
  have 2: "notes (fst (receive_all_rendered ?h ?p ''r1''
             (map Notes_updated ([''plain text''] @ [''<p>b</p>''])) StudyRoom_initial))
           = ''<p>b</p>''"
    using fixed notes_last_update_alone_decides
      [where s = StudyRoom_initial and c = "''<p>b</p>''"
         and cs = "[''plain text'']" and h = ?h and p = ?p and rid = "''r1''"]
    by blast
  have sk: "socket ?p \<noteq> None" by simp
  have 3: "receive_rendered ?h ?p ''r1'' (Notes_updated ''plain text'') StudyRoom_initial
       = (StudyRoom_initial\<lparr>notes := ''<p>plain text</p>''\<rparr>,
          [Update_notes ''r1'' ''<p>plain text</p>''])"
    using sk notes_last_update_alone_decides
      [where s = StudyRoom_initial and c = "''plain text''" and h = ?h and p = ?p
         and rid = "''r1''"]
    by (simp add: prod_eq_iff example_editor_html_def StudyRoom_initial_def)
  from tab 1 2 sk 3 show ?thesis by blast
qed

section \<open>Presence\<close>

text \<open>
  C6. On \<open>room_state\<close>, \<open>user_joined\<close> and \<open>user_left\<close> the roster becomes the
  list of users of the event, whatever it was before. So a connection that is not in
  the list of a \<open>user_left\<close> event is not in the roster afterwards.
\<close>

theorem roster_replaced_by_server_list:
  "connectedUsers (on_event (Room_state n ms us) s) = us
   \<and> connectedUsers (on_event (User_joined us) s) = us
   \<and> connectedUsers (on_event (User_left us) s) = us
   \<and> (d \<notin> socket_id ` set us \<longrightarrow>
        d \<notin> socket_id ` set (connectedUsers (on_event (User_left us) s)))"
  by simp

theorem roster_replaced_by_server_list_witness:
  "''s1'' \<notin> socket_id ` set [\<lparr>username = ''bob'', socket_id = ''s2''\<rparr>]
   \<and> connectedUsers (on_event (User_left [\<lparr>username = ''bob'', socket_id = ''s2''\<rparr>])
        (StudyRoom_initial\<lparr>connectedUsers :=
           [\<lparr>username = ''alice'', socket_id = ''s1''\<rparr>, \<lparr>username = ''bob'', socket_id = ''s2''\<rparr>]\<rparr>))
       = [\<lparr>username = ''bob'', socket_id = ''s2''\<rparr>]
   \<and> ''s1'' \<notin> socket_id ` set (connectedUsers
        (on_event (User_left [\<lparr>username = ''bob'', socket_id = ''s2''\<rparr>])
          (StudyRoom_initial\<lparr>connectedUsers :=
             [\<lparr>username = ''alice'', socket_id = ''s1''\<rparr>, \<lparr>username = ''bob'', socket_id = ''s2''\<rparr>]\<rparr>)))"
  using roster_replaced_by_server_list
    [where us = "[\<lparr>username = ''bob'', socket_id = ''s2''\<rparr>]" and d = "''s1''" and s =
        "StudyRoom_initial\<lparr>connectedUsers :=
           [\<lparr>username = ''alice'', socket_id = ''s1''\<rparr>, \<lparr>username = ''bob'', socket_id = ''s2''\<rparr>]\<rparr>"]
  by simp

section \<open>Joining a room by its code\<close>

lemma upper_latin1_ascii: "c < 0x80 \<Longrightarrow> upper_latin1 c = [ascii_upper c]"
  unfolding upper_latin1_def ascii_upper_def
  by (auto simp: word_le_nat_alt word_less_nat_alt)

lemma upper_on_ascii_latin1: "upper_on_ascii toUpperCase_latin1"
  unfolding upper_on_ascii_def
proof (intro allI impI)
  fix v :: js_string
  assume "list_all (\<lambda>c. c < 0x80) v"
  then show "toUpperCase_latin1 v = map ascii_upper v"
    by (induction v) (simp_all add: toUpperCase_latin1_def upper_latin1_ascii)
qed

lemma toUpperCase_latin1_examples:
  "toUpperCase_latin1 (utf16 ''caf'' @ [0x00E9]) = utf16 ''CAF'' @ [0x00C9]"
  "toUpperCase_latin1 [0x0061, 0x00DF] = utf16 ''ASS''"
  by (simp_all add: toUpperCase_latin1_def upper_latin1_def utf16_def)

lemma ascii_upper_lower:
  fixes c :: code_unit
  assumes "(0x41 \<le> c \<and> c \<le> 0x5A) \<or> (0x30 \<le> c \<and> c \<le> 0x39)"
  shows "ascii_upper (ascii_lower c) = c" and "ascii_lower c < 0x80"
  using assms unfolding ascii_upper_def ascii_lower_def
  by (auto simp: word_le_nat_alt word_less_nat_alt unat_word_ariths split: if_splits)

lemma upper_of_lower_case_rendering:
  assumes "upper_on_ascii f" and "is_join_code k"
  shows "f (lower_case_rendering k) = k"
proof -
  from assms(2) have alnum: "list_all (\<lambda>c. (0x41 \<le> c \<and> c \<le> 0x5A) \<or> (0x30 \<le> c \<and> c \<le> 0x39)) k"
    by (simp add: is_join_code_def)
  from alnum have ascii: "list_all (\<lambda>c. c < 0x80) (lower_case_rendering k)"
    by (induction k) (simp_all add: lower_case_rendering_def ascii_upper_lower(2))
  from alnum have round_trip: "map ascii_upper (lower_case_rendering k) = k"
    by (induction k) (simp_all add: lower_case_rendering_def ascii_upper_lower(1))
  from assms(1) ascii have "f (lower_case_rendering k) = map ascii_upper (lower_case_rendering k)"
    unfolding upper_on_ascii_def by blast
  with round_trip show ?thesis by simp
qed

text \<open>
  C7. Whatever string the join field receives, the room code that is stored, and that
  \<open>joinRoom\<close> submits, is what \<open>toUpperCase\<close> makes of the string. So for a join
  code (upper-case letters and digits) typed in lower case the request carries the code
  itself, and when the endpoint accepts the code the join succeeds: the room is added
  and the client navigates to it. Of \<open>toUpperCase\<close> the second part uses only
  what it does on ASCII text.
\<close>

theorem join_code_uppercased_before_submit:
  "roomCode (roomCode_onChange toUpperCase v d) = toUpperCase v
   \<and> sent_room_code (join_request p (roomCode_onChange toUpperCase v d)) = toUpperCase v
   \<and> (upper_on_ascii toUpperCase \<and> is_join_code code \<longrightarrow>
        sent_room_code
          (join_request p (roomCode_onChange toUpperCase (lower_case_rendering code) d)) = code)
   \<and> (upper_on_ascii toUpperCase \<and> is_join_code code
        \<and> endpoint (Post_rooms_join code (authorization p)) = Inr r \<longrightarrow>
        joinRoom endpoint p (roomCode_onChange toUpperCase (lower_case_rendering code) d) =
          (d\<lparr>rooms := rooms d @ [r], roomCode := [], showJoinRoom := False, loading := False\<rparr>,
           Some (''/room/'' @ room_ident r)))"
proof -
  have up: "upper_on_ascii toUpperCase \<and> is_join_code code \<Longrightarrow>
              toUpperCase (lower_case_rendering code) = code"
    using upper_of_lower_case_rendering [of toUpperCase code] by blast
  show ?thesis
    using up by (auto simp: roomCode_onChange_def join_request_def joinRoom_def)
qed

theorem join_code_uppercased_before_submit_witness:
  "upper_on_ascii toUpperCase_latin1
   \<and> is_join_code (utf16 ''K3F9Q2'')
   \<and> lower_case_rendering (utf16 ''K3F9Q2'') = utf16 ''k3f9q2''
   \<and> sent_room_code
        (join_request \<lparr>user = Some [], token = Some ''t'', socket = None, localStorage = Map.empty\<rparr>
           (roomCode_onChange toUpperCase_latin1 (utf16 ''k3f9q2'')
              \<lparr>rooms = [], showCreateRoom = False, showJoinRoom = True, roomName = '''',
               roomCode = [], loading = False\<rparr>)) = utf16 ''K3F9Q2''
   \<and> snd (joinRoom
        (\<lambda>req. if sent_room_code req = utf16 ''K3F9Q2''
               then Inr \<lparr>room_ident = ''r1'', name = ''Algebra'', room_code = utf16 ''K3F9Q2'',
                         participants = [''U1'', ''U2'']\<rparr>
               else Inl (Http_error ''Room not found''))
        \<lparr>user = Some [], token = Some ''t'', socket = None, localStorage = Map.empty\<rparr>
        (roomCode_onChange toUpperCase_latin1 (utf16 ''k3f9q2'')
           \<lparr>rooms = [], showCreateRoom = False, showJoinRoom = True, roomName = '''',
            roomCode = [], loading = False\<rparr>)) = Some ''/room/r1''
   \<and> roomCode (roomCode_onChange toUpperCase_latin1 (utf16 ''caf'' @ [0x00E9])
        \<lparr>rooms = [], showCreateRoom = False, showJoinRoom = True, roomName = '''',
         roomCode = [], loading = False\<rparr>) = utf16 ''CAF'' @ [0x00C9]"
proof -
  let ?p = "\<lparr>user = Some [], token = Some ''t'', socket = None, localStorage = Map.empty\<rparr>"
  let ?d = "\<lparr>rooms = [], showCreateRoom = False, showJoinRoom = True, roomName = '''',
             roomCode = [], loading = False\<rparr>"
  let ?r = "\<lparr>room_ident = ''r1'', name = ''Algebra'', room_code = utf16 ''K3F9Q2'',
             participants = [''U1'', ''U2'']\<rparr>"
  let ?e = "\<lambda>req. if sent_room_code req = utf16 ''K3F9Q2'' then Inr ?r
                  else Inl (Http_error ''Room not found'')"
  have code: "is_join_code (utf16 ''K3F9Q2'')"
    by (simp add: is_join_code_def utf16_def)
  have low: "lower_case_rendering (utf16 ''K3F9Q2'') = utf16 ''k3f9q2''"
    by (simp add: lower_case_rendering_def ascii_lower_def utf16_def)
  have accepts: "?e (Post_rooms_join (utf16 ''K3F9Q2'') (authorization ?p)) = Inr ?r"
    by simp
  note th = join_code_uppercased_before_submit
    [where toUpperCase = toUpperCase_latin1 and code = "utf16 ''K3F9Q2''" and p = ?p
       and d = ?d and r = ?r and endpoint = ?e]
  have 1: "sent_room_code (join_request ?p
             (roomCode_onChange toUpperCase_latin1 (utf16 ''k3f9q2'') ?d)) = utf16 ''K3F9Q2''"
    using th upper_on_ascii_latin1 code unfolding low by blast
  have "joinRoom ?e ?p (roomCode_onChange toUpperCase_latin1 (utf16 ''k3f9q2'') ?d) =
          (?d\<lparr>rooms := rooms ?d @ [?r], roomCode := [], showJoinRoom := False, loading := False\<rparr>,
           Some (''/room/'' @ room_ident ?r))"
    using th upper_on_ascii_latin1 code accepts unfolding low by blast
  then have 2: "snd (joinRoom ?e ?p (roomCode_onChange toUpperCase_latin1 (utf16 ''k3f9q2'') ?d))
                  = Some ''/room/r1''"
    by simp
  have 3: "roomCode (roomCode_onChange toUpperCase_latin1 (utf16 ''caf'' @ [0x00E9]) ?d)
             = utf16 ''CAF'' @ [0x00C9]"
    using join_code_uppercased_before_submit
      [where toUpperCase = toUpperCase_latin1 and v = "utf16 ''caf'' @ [0x00E9]" and d = ?d]
      toUpperCase_latin1_examples(1)
    by simp
  from upper_on_ascii_latin1 code low 1 2 3 show ?thesis by blast
qed

section \<open>What StudyRoom emits, and when\<close>

lemma join_effect_cases:
  "join_effect p rid =
     (if socket p \<noteq> None \<and> user p \<noteq> None \<and> truthy rid then [Join_room rid (the (user p))] else [])"
  by (cases "socket p"; cases "user p") (simp_all add: join_effect_def)

lemma emitted_by_draw:
  "emitted_by (draw sub p rid e s) =
     (case canvas s of
        None \<Rightarrow> []
      | Some ctx \<Rightarrow>
          if isDrawing s \<and> socket p \<noteq> None
          then [Drawing_data rid
                  \<lparr>stroke_x = sub (clientX e) (rect_left ctx),
                   stroke_y = sub (clientY e) (rect_top ctx),
                   color = ''#000'', width = Num 2\<rparr>]
          else [])"
  by (cases "canvas s") (simp_all add: draw_def emitted_by_def Let_def)

lemma emitted_by_StudyRoom_act:
  "emitted_by (StudyRoom_act sub p rid act s) =
     (case act of
        Run_join_effect \<Rightarrow> join_effect p rid
      | Notes_change content \<Rightarrow> snd (handleNotesChange p rid content s)
      | Submit_chat \<Rightarrow> snd (sendMessage p rid s)
      | Mouse_down e \<Rightarrow> []
      | Mouse_move e \<Rightarrow> emitted_by (draw sub p rid e s)
      | Mouse_up \<Rightarrow> [])"
proof (cases act)
  case (Mouse_down e)
  then show ?thesis
    by (cases "startDrawing sub e s") (simp_all add: StudyRoom_act_def emitted_by_def)
qed (simp_all add: StudyRoom_act_def emitted_by_def split: prod.splits)

lemma emitted_by_StudyRoom_act_no_socket:
  "socket p = None \<Longrightarrow> emitted_by (StudyRoom_act sub p rid act s) = []"
  by (cases act; cases "canvas s")
     (simp_all add: emitted_by_StudyRoom_act join_effect_cases handleNotesChange_def
        sendMessage_def emitted_by_draw)

lemma Join_room_emitted_only_by_join_effect:
  "Join_room r u \<in> set (emitted_by (StudyRoom_act sub p rid act s)) \<Longrightarrow>
     user p = Some u \<and> r = rid \<and> act = Run_join_effect"
  by (cases act; cases "canvas s")
     (auto simp: emitted_by_StudyRoom_act join_effect_cases handleNotesChange_def
        sendMessage_def emitted_by_draw split: if_splits)

text \<open>
  C8. StudyRoom emits nothing without a user: the room route renders it inside
  PrivateRoute, so whenever anything is emitted there is both a user and a socket.
  Every emit is guarded on the socket: with no socket the join effect and the
  handlers emit nothing. A \<open>join_room\<close> event comes from the join effect only, for
  the room of the route, and carries the user of AuthProvider. The effect of
  SocketProvider changes the socket only when there is a user.
\<close>

theorem emits_need_user_and_socket:
  "(room_route sub p rid act s \<noteq> [] \<longrightarrow> user p \<noteq> None \<and> socket p \<noteq> None)
   \<and> (socket p = None \<longrightarrow> emitted_by (StudyRoom_act sub p rid act s) = [])
   \<and> (Join_room r u \<in> set (emitted_by (StudyRoom_act sub p rid act s)) \<longrightarrow>
        user p = Some u \<and> r = rid \<and> act = Run_join_effect)
   \<and> (socket (SocketProvider_effect newSocket p) \<noteq> socket p \<longrightarrow> user p \<noteq> None)
   \<and> (user p = None \<longrightarrow>
        SocketProvider_effect newSocket p = p \<and> room_route sub p rid act s = [])"
proof -
  have a: "room_route sub p rid act s \<noteq> [] \<Longrightarrow> user p \<noteq> None \<and> socket p \<noteq> None"
    using emitted_by_StudyRoom_act_no_socket [of p sub rid act s]
    by (cases "user p") (auto simp: room_route_def PrivateRoute_def)
  have b: "socket (SocketProvider_effect newSocket p) \<noteq> socket p \<Longrightarrow> user p \<noteq> None"
    by (cases "user p") (simp_all add: SocketProvider_effect_def)
  have c: "user p = None \<Longrightarrow>
             SocketProvider_effect newSocket p = p \<and> room_route sub p rid act s = []"
    by (simp add: SocketProvider_effect_def room_route_def PrivateRoute_def)
  show ?thesis
    using a b c emitted_by_StudyRoom_act_no_socket [of p sub rid act s]
      Join_room_emitted_only_by_join_effect [of r u sub p rid act s]
    by blast
qed

theorem emits_need_user_and_socket_witness:
  "room_route exact_difference \<lparr>user = Some [(''username'', ''ann'')], token = Some ''t'',
               socket = Some (Socket 1), localStorage = Map.empty\<rparr>
      ''r1'' Run_join_effect StudyRoom_initial = [Join_room ''r1'' [(''username'', ''ann'')]]
   \<and> user \<lparr>user = Some [(''username'', ''ann'')], token = Some ''t'',
               socket = Some (Socket 1), localStorage = Map.empty\<rparr> \<noteq> None
   \<and> socket \<lparr>user = Some [(''username'', ''ann'')], token = Some ''t'',
               socket = Some (Socket 1), localStorage = Map.empty\<rparr> \<noteq> None
   \<and> socket (providers_initial Map.empty) = None
   \<and> emitted_by (StudyRoom_act exact_difference (providers_initial Map.empty) ''r1''
         (Notes_change ''x'') StudyRoom_initial) = []
   \<and> user (providers_initial Map.empty) = None
   \<and> room_route exact_difference (providers_initial Map.empty) ''r1'' Submit_chat
         (StudyRoom_initial\<lparr>newMessage := utf16 ''hi''\<rparr>) = []"
proof -
  let ?p = "\<lparr>user = Some [(''username'', ''ann'')], token = Some ''t'',
               socket = Some (Socket 1), localStorage = Map.empty\<rparr>"
  have e: "room_route exact_difference ?p ''r1'' Run_join_effect StudyRoom_initial
             = [Join_room ''r1'' [(''username'', ''ann'')]]"
    by (simp add: room_route_def PrivateRoute_def StudyRoom_act_def emitted_by_def
          join_effect_def truthy_def)
  then have ne: "room_route exact_difference ?p ''r1'' Run_join_effect StudyRoom_initial \<noteq> []"
    by simp
  have n: "socket (providers_initial Map.empty) = None"
    and u: "user (providers_initial Map.empty) = None"
    by (simp_all add: providers_initial_def)
  from ne have 1: "user ?p \<noteq> None \<and> socket ?p \<noteq> None"
    using emits_need_user_and_socket
      [of exact_difference ?p "''r1''" Run_join_effect StudyRoom_initial] by blast
  from n have 2: "emitted_by (StudyRoom_act exact_difference (providers_initial Map.empty) ''r1''
         (Notes_change ''x'') StudyRoom_initial) = []"
    using emits_need_user_and_socket [of exact_difference "providers_initial Map.empty" "''r1''"
        "Notes_change ''x''" StudyRoom_initial] by blast
  from u have 3: "room_route exact_difference (providers_initial Map.empty) ''r1'' Submit_chat
         (StudyRoom_initial\<lparr>newMessage := utf16 ''hi''\<rparr>) = []"
    using emits_need_user_and_socket [of exact_difference "providers_initial Map.empty" "''r1''"
        Submit_chat "StudyRoom_initial\<lparr>newMessage := utf16 ''hi''\<rparr>"] by blast
  from e 1 n 2 u 3 show ?thesis by blast
qed

section \<open>Whiteboard\<close>

lemma drawing_update_on_canvas:
  "canvas s = Some ctx \<Longrightarrow>
     canvas (on_event (Drawing_update d) s) =
       Some (stroke (lineTo (stroke_x d) (stroke_y d)
               (set_lineWidth (width d) (set_strokeStyle (color d) ctx))))"
  by simp

lemma set_strokeStyle_fields:
  "strokeStyle (set_strokeStyle v c) = (case css_color c v of None \<Rightarrow> strokeStyle c | Some col \<Rightarrow> col)"
  "lineWidth (set_strokeStyle v c) = lineWidth c"
  "path (set_strokeStyle v c) = path c"
  "painted (set_strokeStyle v c) = painted c"
  by (simp_all add: set_strokeStyle_def split: option.splits)

lemma set_lineWidth_fields:
  "strokeStyle (set_lineWidth w c) = strokeStyle c"
  "lineWidth (set_lineWidth w c) = (if accepted_width w then w else lineWidth c)"
  "path (set_lineWidth w c) = path c"
  "painted (set_lineWidth w c) = painted c"
  by (simp_all add: set_lineWidth_def)

lemma lineTo_fields:
  "strokeStyle (lineTo px py c) = strokeStyle c"
  "lineWidth (lineTo px py c) = lineWidth c"
  "painted (lineTo px py c) = painted c"
  "path (lineTo px py c) =
     (if finite_number px \<and> finite_number py
      then (if path c = [] then [MoveTo px py] else path c @ [LineTo px py])
      else path c)"
  by (simp_all add: lineTo_def)

lemma stroke_fields:
  "strokeStyle (stroke c) = strokeStyle c"
  "lineWidth (stroke c) = lineWidth c"
  "path (stroke c) = path c"
  "painted (stroke c) = painted c @ [(strokeStyle c, lineWidth c, path c)]"
  by (simp_all add: stroke_def)

text \<open>
  C9, as the claim states it, fails in two ways. While no canvas is in the page,
  which is how the room starts (the notes tab is the active one), a \<open>drawing_update\<close>
  that arrives is not rendered at all, and the room is as it was. And on a canvas that
  is in the page, an update whose colour does not parse and whose width is zero is
  painted with the style and the width the canvas had, not with the received ones.
\<close>

theorem drawing_update_not_rendered_as_received_counterexample:
  "canvas (on_event (Drawing_update \<lparr>stroke_x = Num 10, stroke_y = Num 20, color = ''#000'',
                                     width = Num 2\<rparr>) StudyRoom_initial) = None
   \<and> on_event (Drawing_update \<lparr>stroke_x = Num 10, stroke_y = Num 20, color = ''#000'',
                               width = Num 2\<rparr>) StudyRoom_initial = StudyRoom_initial
   \<and> canvas (on_event (Drawing_update \<lparr>stroke_x = Num 10, stroke_y = Num 20,
                                       color = ''not a colour'', width = Num 0\<rparr>)
        (setActiveTab (new_canvas example_css_color (Num 5) (Num 5)) ''whiteboard''
           StudyRoom_initial)) =
       Some \<lparr>css_color = example_css_color, strokeStyle = ''#000000'', lineWidth = Num 1,
             path = [MoveTo (Num 10) (Num 20)],
             painted = [(''#000000'', Num 1, [MoveTo (Num 10) (Num 20)])],
             rect_left = Num 5, rect_top = Num 5\<rparr>"
  by (simp add: StudyRoom_initial_def setActiveTab_def new_canvas_def example_css_color_def
        stroke_def lineTo_def set_lineWidth_def set_strokeStyle_def accepted_width_def
        finite_number_def)

text \<open>
  C9, amended. Every \<open>drawing_data\<close> event that \<open>draw\<close> emits has the room id of
  the route and the data \<open>{x, y, color, width}\<close>, with the position of the mouse in
  the canvas, the colour \<open>#000\<close> and the width 2. A \<open>drawing_update\<close> that arrives
  while the canvas is in the page is handed to the canvas as received: the received
  colour to \<open>strokeStyle\<close>, the received width to \<open>lineWidth\<close>, the received
  point to \<open>lineTo\<close>, and then \<open>stroke\<close>. When the canvas accepts them (the
  colour parses, the width is finite and above zero, the coordinates are finite) the
  stroke is painted with exactly that colour and width, up to that point. A colour
  that does not parse leaves the stroke style as it was, and a width that is not
  accepted leaves the line width as it was. A \<open>drawing_update\<close> that arrives while
  no canvas is in the page is dropped.
\<close>

theorem drawing_relayed_verbatim_on_mounted_canvas:
  "(ev \<in> set (emitted_by (draw sub p rid e s)) \<longrightarrow>
      (\<exists>ctx. canvas s = Some ctx \<and>
         ev = Drawing_data rid
                \<lparr>stroke_x = sub (clientX e) (rect_left ctx),
                 stroke_y = sub (clientY e) (rect_top ctx),
                 color = ''#000'', width = Num 2\<rparr>))
   \<and> (canvas s = Some ctx \<longrightarrow>
        canvas (on_event (Drawing_update d) s) =
          Some (stroke (lineTo (stroke_x d) (stroke_y d)
                  (set_lineWidth (width d) (set_strokeStyle (color d) ctx)))))
   \<and> (canvas s = Some ctx \<and> css_color ctx (color d) = Some col \<and> accepted_width (width d)
        \<and> finite_number (stroke_x d) \<and> finite_number (stroke_y d) \<longrightarrow>
        canvas (on_event (Drawing_update d) s) =
          Some (ctx\<lparr>strokeStyle := col, lineWidth := width d,
                    path := (if path ctx = [] then [MoveTo (stroke_x d) (stroke_y d)]
                             else path ctx @ [LineTo (stroke_x d) (stroke_y d)]),
                    painted := painted ctx @
                      [(col, width d,
                        (if path ctx = [] then [MoveTo (stroke_x d) (stroke_y d)]
                         else path ctx @ [LineTo (stroke_x d) (stroke_y d)]))]\<rparr>))
   \<and> (canvas s = Some ctx \<and> css_color ctx (color d) = None \<longrightarrow>
        (\<exists>ctx'. canvas (on_event (Drawing_update d) s) = Some ctx'
                \<and> strokeStyle ctx' = strokeStyle ctx))
   \<and> (canvas s = Some ctx \<and> \<not> accepted_width (width d) \<longrightarrow>
        (\<exists>ctx'. canvas (on_event (Drawing_update d) s) = Some ctx'
                \<and> lineWidth ctx' = lineWidth ctx))
   \<and> (canvas s = None \<longrightarrow> on_event (Drawing_update d) s = s)"
proof -
  have emitted: "ev \<in> set (emitted_by (draw sub p rid e s)) \<Longrightarrow>
      (\<exists>ctx. canvas s = Some ctx \<and>
         ev = Drawing_data rid
                \<lparr>stroke_x = sub (clientX e) (rect_left ctx),
                 stroke_y = sub (clientY e) (rect_top ctx),
                 color = ''#000'', width = Num 2\<rparr>)"
    by (cases "canvas s") (auto simp: emitted_by_draw split: if_splits)
  have accepted: "canvas (on_event (Drawing_update d) s) =
          Some (ctx\<lparr>strokeStyle := col, lineWidth := width d,
                    path := (if path ctx = [] then [MoveTo (stroke_x d) (stroke_y d)]
                             else path ctx @ [LineTo (stroke_x d) (stroke_y d)]),
                    painted := painted ctx @
                      [(col, width d,
                        (if path ctx = [] then [MoveTo (stroke_x d) (stroke_y d)]
                         else path ctx @ [LineTo (stroke_x d) (stroke_y d)]))]\<rparr>)"
    if "canvas s = Some ctx" "css_color ctx (color d) = Some col" "accepted_width (width d)"
      "finite_number (stroke_x d)" "finite_number (stroke_y d)"
    using that
    by (simp add: stroke_def lineTo_def set_lineWidth_def set_strokeStyle_def)
  have style_kept: "\<exists>ctx'. canvas (on_event (Drawing_update d) s) = Some ctx'
                \<and> strokeStyle ctx' = strokeStyle ctx"
    if "canvas s = Some ctx" "css_color ctx (color d) = None"
    using that
    by (simp add: stroke_fields lineTo_fields set_lineWidth_fields set_strokeStyle_fields)
  have width_kept: "\<exists>ctx'. canvas (on_event (Drawing_update d) s) = Some ctx'
                \<and> lineWidth ctx' = lineWidth ctx"
    if "canvas s = Some ctx" "\<not> accepted_width (width d)"
    using that
    by (simp add: stroke_fields lineTo_fields set_lineWidth_fields set_strokeStyle_fields)
  have dropped: "canvas s = None \<Longrightarrow> on_event (Drawing_update d) s = s"
    by simp
  show ?thesis
    using emitted accepted style_kept width_kept dropped drawing_update_on_canvas [of s ctx d]
    by blast
qed

theorem drawing_relayed_verbatim_on_mounted_canvas_witness:
  "canvas (setActiveTab (new_canvas example_css_color (Num 5) (Num 5)) ''whiteboard''
     StudyRoom_initial) = Some (new_canvas example_css_color (Num 5) (Num 5))
   \<and> Drawing_data ''r1'' \<lparr>stroke_x = Num 10, stroke_y = Num 20, color = ''#000'', width = Num 2\<rparr>
       \<in> set (emitted_by (draw exact_difference
            \<lparr>user = Some [], token = Some ''t'', socket = Some (Socket 1), localStorage = Map.empty\<rparr>
            ''r1'' \<lparr>clientX = Num 15, clientY = Num 25\<rparr>
            ((setActiveTab (new_canvas example_css_color (Num 5) (Num 5)) ''whiteboard''
                StudyRoom_initial)\<lparr>isDrawing := True\<rparr>)))
   \<and> (\<exists>ctx. canvas ((setActiveTab (new_canvas example_css_color (Num 5) (Num 5)) ''whiteboard''
                StudyRoom_initial)\<lparr>isDrawing := True\<rparr>) = Some ctx
        \<and> Num 10 = exact_difference (Num 15) (rect_left ctx)
        \<and> Num 20 = exact_difference (Num 25) (rect_top ctx))
   \<and> css_color (new_canvas example_css_color (Num 5) (Num 5)) ''#f00'' = Some ''#ff0000''
   \<and> accepted_width (Num 3) \<and> finite_number (Num 10) \<and> finite_number (Num 20)
   \<and> canvas (on_event
         (Drawing_update \<lparr>stroke_x = Num 10, stroke_y = Num 20, color = ''#f00'', width = Num 3\<rparr>)
         (setActiveTab (new_canvas example_css_color (Num 5) (Num 5)) ''whiteboard''
            StudyRoom_initial)) =
       Some \<lparr>css_color = example_css_color, strokeStyle = ''#ff0000'', lineWidth = Num 3,
             path = [MoveTo (Num 10) (Num 20)],
             painted = [(''#ff0000'', Num 3, [MoveTo (Num 10) (Num 20)])],
             rect_left = Num 5, rect_top = Num 5\<rparr>
   \<and> css_color (new_canvas example_css_color (Num 5) (Num 5)) ''not a colour'' = None
   \<and> (\<exists>ctx'. canvas (on_event
         (Drawing_update \<lparr>stroke_x = Num 10, stroke_y = Num 20, color = ''not a colour'',
                          width = NaN\<rparr>)
         (setActiveTab (new_canvas example_css_color (Num 5) (Num 5)) ''whiteboard''
            StudyRoom_initial)) = Some ctx'
        \<and> strokeStyle ctx' = ''#000000'' \<and> lineWidth ctx' = Num 1)
   \<and> canvas StudyRoom_initial = None
   \<and> on_event
        (Drawing_update \<lparr>stroke_x = Num 10, stroke_y = Num 20, color = ''#f00'', width = Num 3\<rparr>)
        StudyRoom_initial = StudyRoom_initial"
proof -
  let ?p = "\<lparr>user = Some [], token = Some ''t'', socket = Some (Socket 1),
             localStorage = Map.empty\<rparr>"
  let ?fresh = "new_canvas example_css_color (Num 5) (Num 5)"
  let ?s = "setActiveTab ?fresh ''whiteboard'' StudyRoom_initial"
  let ?d = "\<lparr>stroke_x = Num 10, stroke_y = Num 20, color = ''#f00'', width = Num 3\<rparr>"
  let ?bad = "\<lparr>stroke_x = Num 10, stroke_y = Num 20, color = ''not a colour'', width = NaN\<rparr>"
  have c: "canvas ?s = Some ?fresh"
    by (simp add: setActiveTab_def StudyRoom_initial_def)
  have m: "Drawing_data ''r1'' \<lparr>stroke_x = Num 10, stroke_y = Num 20, color = ''#000'', width = Num 2\<rparr>
       \<in> set (emitted_by (draw exact_difference ?p ''r1'' \<lparr>clientX = Num 15, clientY = Num 25\<rparr>
                 (?s\<lparr>isDrawing := True\<rparr>)))"
    by (simp add: emitted_by_draw setActiveTab_def StudyRoom_initial_def new_canvas_def
          exact_difference_def)
  have red: "css_color ?fresh ''#f00'' = Some ''#ff0000''"
    and unknown: "css_color ?fresh ''not a colour'' = None"
    by (simp_all add: new_canvas_def example_css_color_def)
  have ok: "accepted_width (Num 3)" "finite_number (Num 10)" "finite_number (Num 20)"
    and nan: "\<not> accepted_width NaN"
    by (simp_all add: accepted_width_def finite_number_def)
  have n: "canvas StudyRoom_initial = None"
    by (simp add: StudyRoom_initial_def)
  have 1: "canvas (on_event (Drawing_update ?d) ?s) =
       Some \<lparr>css_color = example_css_color, strokeStyle = ''#ff0000'', lineWidth = Num 3,
             path = [MoveTo (Num 10) (Num 20)],
             painted = [(''#ff0000'', Num 3, [MoveTo (Num 10) (Num 20)])],
             rect_left = Num 5, rect_top = Num 5\<rparr>"
    using c red ok drawing_relayed_verbatim_on_mounted_canvas
      [where s = ?s and ctx = ?fresh and d = ?d and col = "''#ff0000''"]
    by (simp add: new_canvas_def)
  have style: "\<exists>ctx'. canvas (on_event (Drawing_update ?bad) ?s) = Some ctx'
                 \<and> strokeStyle ctx' = strokeStyle ?fresh"
    using c unknown drawing_relayed_verbatim_on_mounted_canvas
      [where s = ?s and ctx = ?fresh and d = ?bad]
    by simp
  have wide: "\<exists>ctx'. canvas (on_event (Drawing_update ?bad) ?s) = Some ctx'
                 \<and> lineWidth ctx' = lineWidth ?fresh"
    using c nan drawing_relayed_verbatim_on_mounted_canvas
      [where s = ?s and ctx = ?fresh and d = ?bad]
    by simp
  from style wide have 2: "\<exists>ctx'. canvas (on_event (Drawing_update ?bad) ?s) = Some ctx'
        \<and> strokeStyle ctx' = ''#000000'' \<and> lineWidth ctx' = Num 1"
    by (auto simp: new_canvas_def)
  have 3: "on_event (Drawing_update ?d) StudyRoom_initial = StudyRoom_initial"
    using n drawing_relayed_verbatim_on_mounted_canvas [where s = StudyRoom_initial and d = ?d]
    by blast
  have 4: "\<exists>ctx. canvas (?s\<lparr>isDrawing := True\<rparr>) = Some ctx
        \<and> Num 10 = exact_difference (Num 15) (rect_left ctx)
        \<and> Num 20 = exact_difference (Num 25) (rect_top ctx)"
    using m drawing_relayed_verbatim_on_mounted_canvas
      [where s = "?s\<lparr>isDrawing := True\<rparr>" and p = ?p and sub = exact_difference
         and rid = "''r1''" and e = "\<lparr>clientX = Num 15, clientY = Num 25\<rparr>"
         and ev = "Drawing_data ''r1''
                    \<lparr>stroke_x = Num 10, stroke_y = Num 20, color = ''#000'', width = Num 2\<rparr>"]
    by simp
  from c m 4 red ok 1 unknown 2 n 3 show ?thesis by blast
qed

section \<open>The token effect of AuthProvider\<close>

lemma jwt_decode_not_in_scope: "''jwt_decode'' \<notin> set (AuthProvider_scope @ module_scope)"
  by (simp add: AuthProvider_scope_def module_scope_def)

lemma call_jwt_decode:
  "globals ''jwt_decode'' = None \<Longrightarrow>
     call (resolve globals jwtDecode ''jwt_decode'') t = Inl ReferenceError"
  using jwt_decode_not_in_scope by (simp add: resolve_def call_def del: set_append)

text \<open>The name that the file imports is bound, and calling it runs the decoder.\<close>

lemma call_jwtDecode: "call (resolve globals jwtDecode ''jwtDecode'') t = jwtDecode t"
  by (simp add: resolve_def call_def AuthProvider_scope_def module_scope_def)

lemma token_effect_logs_out:
  "globals ''jwt_decode'' = None \<Longrightarrow> token p = Some t \<Longrightarrow> truthy t \<Longrightarrow>
     token_effect globals jwtDecode JSON_parse now p = logout p"
  by (simp add: token_effect_def call_jwt_decode)

text \<open>
  C10. The effect calls \<open>jwt_decode\<close>, which the file does not bind (it imports
  \<open>jwtDecode\<close>); provided the page has no global of that name, the call throws a
  ReferenceError whatever the token. So when the page loads with a token in
  localStorage (a stored string that is not empty, which is what the effect's own
  test \<open>if (token)\<close> asks), the effect ends in \<open>logout\<close>: the stored token and user
  are removed and the token cell is cleared. In every case the user is null after the
  load: no stored session is restored, whatever the decoder would say about the token
  and whatever the time is.
\<close>

theorem persisted_session_never_restored:
  assumes "globals ''jwt_decode'' = None"
  shows "call (resolve globals jwtDecode ''jwt_decode'') t = Inl ReferenceError
   \<and> (store ''token'' = Some t \<and> truthy t \<longrightarrow>
        page_load globals jwtDecode JSON_parse now store = logout (providers_initial store)
        \<and> localStorage (page_load globals jwtDecode JSON_parse now store) ''token'' = None
        \<and> localStorage (page_load globals jwtDecode JSON_parse now store) ''user'' = None
        \<and> token (page_load globals jwtDecode JSON_parse now store) = None)
   \<and> user (page_load globals jwtDecode JSON_parse now store) = None"
proof -
  have out: "page_load globals jwtDecode JSON_parse now store = logout (providers_initial store)"
    if "store ''token'' = Some t" and "truthy t"
    using that assms unfolding page_load_def
    by (intro token_effect_logs_out) (simp_all add: providers_initial_def)
  have nobody: "user (page_load globals jwtDecode JSON_parse now store) = None"
  proof (cases "store ''token''")
    case None
    then show ?thesis
      by (simp add: page_load_def token_effect_def providers_initial_def)
  next
    case (Some t')
    show ?thesis
    proof (cases "truthy t'")
      case True
      with Some assms have
        "token_effect globals jwtDecode JSON_parse now (providers_initial store)
           = logout (providers_initial store)"
        by (intro token_effect_logs_out) (simp_all add: providers_initial_def)
      then show ?thesis by (simp add: page_load_def logout_def)
    next
      case False
      with Some show ?thesis
        by (simp add: page_load_def token_effect_def providers_initial_def)
    qed
  qed
  show ?thesis
    using out nobody assms call_jwt_decode [of globals jwtDecode t]
    by (auto simp: logout_def)
qed

theorem persisted_session_never_restored_witness:
  "(Map.empty :: string \<rightharpoonup> binding) ''jwt_decode'' = None
   \<and> [''token'' \<mapsto> ''abc'', ''user'' \<mapsto> ''{}''] ''token'' = Some ''abc''
   \<and> truthy ''abc''
   \<and> (2000000000 :: real) * 1000 > 1700000000000
   \<and> user (page_load Map.empty (\<lambda>t. Inr (Payload (Some 2000000000))) (\<lambda>s. Inr (Some []))
        1700000000000 [''token'' \<mapsto> ''abc'', ''user'' \<mapsto> ''{}'']) = None
   \<and> token (page_load Map.empty (\<lambda>t. Inr (Payload (Some 2000000000))) (\<lambda>s. Inr (Some []))
        1700000000000 [''token'' \<mapsto> ''abc'', ''user'' \<mapsto> ''{}'']) = None
   \<and> localStorage (page_load Map.empty (\<lambda>t. Inr (Payload (Some 2000000000))) (\<lambda>s. Inr (Some []))
        1700000000000 [''token'' \<mapsto> ''abc'', ''user'' \<mapsto> ''{}'']) ''token'' = None
   \<and> localStorage (page_load Map.empty (\<lambda>t. Inr (Payload (Some 2000000000))) (\<lambda>s. Inr (Some []))
        1700000000000 [''token'' \<mapsto> ''abc'', ''user'' \<mapsto> ''{}'']) ''user'' = None"
proof -
  have g: "(Map.empty :: string \<rightharpoonup> binding) ''jwt_decode'' = None" by simp
  have s: "[''token'' \<mapsto> ''abc'', ''user'' \<mapsto> ''{}''] ''token'' = Some ''abc''" by simp
  have t: "truthy ''abc''" by (simp add: truthy_def)
  show ?thesis
    using g s t
      persisted_session_never_restored [OF g, of "\<lambda>t. Inr (Payload (Some 2000000000))" "''abc''"
        "[''token'' \<mapsto> ''abc'', ''user'' \<mapsto> ''{}'']" "\<lambda>s. Inr (Some [])" 1700000000000]
    by (simp add: logout_def providers_initial_def)
qed

end
